theory Spec2Isabelle
  imports Complex_Main
begin

section \<open>Tensors\<close>

text \<open>
  The notebook sets \<^verbatim>\<open>torch.set_default_dtype(torch.float64)\<close>. Its cells are read twice.
  In the first reading, which this and the next sections give, a tensor entry is a real
  number and every operation is exact: the statements about it are statements of exact
  arithmetic. The second reading, in binary64 with rounding, overflow and NaN, follows
  further below; it is the one the program computes, and the two differ. A one-dimensional
  tensor is a list, a two-dimensional tensor a list of rows.
\<close>

type_synonym vec = "real list"

type_synonym mat = "real list list"

text \<open>The weight of \<^verbatim>\<open>nn.Linear(4, 3, bias=False)\<close> is 3 x 4; a batch of the
  \<^verbatim>\<open>DataLoader(..., batch_size=1)\<close> is 1 x 4 with a target of one label.\<close>

definition shape :: "nat \<Rightarrow> nat \<Rightarrow> 'a list list \<Rightarrow> bool" where
  "shape n m A \<longleftrightarrow> length A = n \<and> list_all (\<lambda>r. length r = m) A"

definition dot :: "vec \<Rightarrow> vec \<Rightarrow> real" where
  "dot u v = sum_list (map2 (*) u v)"

text \<open>\<^verbatim>\<open>A @ B\<close>; \<^verbatim>\<open>A.T\<close> is \<^const>\<open>transpose\<close>.\<close>

definition matmul :: "mat \<Rightarrow> mat \<Rightarrow> mat" where
  "matmul A B = map (\<lambda>r. map (dot r) (transpose B)) A"

text \<open>Elementwise \<^verbatim>\<open>A - B\<close> of two tensors of one shape, and \<^verbatim>\<open>c * A\<close>.\<close>

definition sub :: "mat \<Rightarrow> mat \<Rightarrow> mat" where
  "sub A B = map2 (map2 (-)) A B"

definition scale :: "real \<Rightarrow> mat \<Rightarrow> mat" where
  "scale c A = map (map ((*) c)) A"

definition zeros :: "nat \<Rightarrow> nat \<Rightarrow> mat" where
  "zeros n m = replicate n (replicate m 0)"

text \<open>\<^verbatim>\<open>.flatten()\<close> of a two-dimensional tensor is row-major; \<^verbatim>\<open>.unsqueeze(1)\<close> turns
  a vector of length n into an n x 1 tensor.\<close>

definition flatten :: "mat \<Rightarrow> vec" where
  "flatten A = concat A"

definition unsqueeze1 :: "vec \<Rightarrow> mat" where
  "unsqueeze1 v = map (\<lambda>a. [a]) v"

text \<open>\<^verbatim>\<open>z.softmax(dim=0)\<close> of a vector and \<^verbatim>\<open>out.softmax(dim=1)\<close> of a batch of rows.\<close>

definition softmax :: "vec \<Rightarrow> vec" where
  "softmax z = map (\<lambda>v. exp v / sum_list (map exp z)) z"

definition softmax_dim1 :: "mat \<Rightarrow> mat" where
  "softmax_dim1 out = map softmax out"

definition log_softmax :: "vec \<Rightarrow> vec" where
  "log_softmax z = map (\<lambda>v. v - ln (sum_list (map exp z))) z"

text \<open>\<^verbatim>\<open>H[r:r+4, c:c+4] = B\<close> with a 4 x 4 tensor \<^term>\<open>B\<close>: the entries of the block are
  replaced, all others kept.\<close>

definition set_block :: "mat \<Rightarrow> nat \<Rightarrow> nat \<Rightarrow> mat \<Rightarrow> mat" where
  "set_block H r c B =
     map (\<lambda>(a, row).
            if r \<le> a \<and> a < r + 4
            then map (\<lambda>(b, v). if c \<le> b \<and> b < c + 4 then B ! (a - r) ! (b - c) else v)
                   (enumerate 0 row)
            else row)
         (enumerate 0 H)"

section \<open>Model and loss\<close>

datatype error = IndexError | RuntimeError | ValueError

text \<open>A float64 scalar that may be the NaN of a division 0 / 0.\<close>

datatype scalar = Finite real | NaN

text \<open>\<^verbatim>\<open>LogisticRegressionModel\<close>: one parameter, \<^verbatim>\<open>linear.weight\<close>, and the \<^verbatim>\<open>.grad\<close>
  field that \<^verbatim>\<open>backward()\<close> accumulates into.\<close>

record LogisticRegressionModel =
  weight :: mat
  weight_grad :: "mat option"

text \<open>\<^verbatim>\<open>F.linear(input, W)\<close> without bias is \<^verbatim>\<open>input @ W.T\<close>.\<close>

definition F_linear :: "mat \<Rightarrow> mat \<Rightarrow> mat" where
  "F_linear W input = matmul input (transpose W)"

definition forward :: "LogisticRegressionModel \<Rightarrow> mat \<Rightarrow> mat" where
  "forward m x = F_linear (weight m) x"

text \<open>A dictionary from parameter names to tensors, in insertion order, as
  \<^verbatim>\<open>dict(model.named_parameters())\<close> builds it.\<close>

type_synonym params = "(string \<times> mat) list"

definition named_parameters :: "LogisticRegressionModel \<Rightarrow> params" where
  "named_parameters m = [(''linear.weight'', weight m)]"

text \<open>\<^verbatim>\<open>functional_call(model, params, (data,))\<close> runs the module with the tensors of
  \<^verbatim>\<open>params\<close> in place of its parameters of those names; a parameter that \<^verbatim>\<open>params\<close>
  does not name keeps the module's own tensor.\<close>

definition functional_call ::
  "LogisticRegressionModel \<Rightarrow> params \<Rightarrow> mat \<Rightarrow> mat" where
  "functional_call m params data =
     (case map_of params ''linear.weight'' of
        Some W \<Rightarrow> forward (m\<lparr>weight := W\<rparr>) data
      | None \<Rightarrow> forward m data)"

text \<open>
  \<^verbatim>\<open>criterion = torch.nn.CrossEntropyLoss()\<close> with its defaults: no class weights,
  \<^verbatim>\<open>ignore_index=-100\<close>, \<^verbatim>\<open>reduction='mean'\<close>, no label smoothing. For class-index
  targets it is \<^verbatim>\<open>nll_loss(log_softmax(input, 1), target)\<close>: a sample whose target is
  \<^verbatim>\<open>ignore_index\<close> is skipped, any other target outside \<open>0 \<le> t < C\<close> raises
  \<^verbatim>\<open>IndexError: Target t is out of bounds\<close>, and the losses of the samples kept are
  averaged over their number; with no sample kept the mean is 0 / 0, a NaN.
\<close>

definition ignore_index :: int where
  "ignore_index = - 100"

fun nll_terms :: "mat \<Rightarrow> int list \<Rightarrow> error + real list" where
  "nll_terms [] [] = Inr []"
| "nll_terms (row # rows) (t # ts) =
     (if t = ignore_index then nll_terms rows ts
      else if t < 0 \<or> int (length row) \<le> t then Inl IndexError
      else (case nll_terms rows ts of
              Inl e \<Rightarrow> Inl e
            | Inr ls \<Rightarrow> Inr (- (log_softmax row ! nat t) # ls)))"
| "nll_terms _ _ = Inl ValueError"

definition criterion :: "mat \<Rightarrow> int list \<Rightarrow> error + scalar" where
  "criterion out target =
     (case nll_terms out target of
        Inl e \<Rightarrow> Inl e
      | Inr ls \<Rightarrow> Inr (if ls = [] then NaN else Finite (sum_list ls / real (length ls))))"

definition compute_loss ::
  "LogisticRegressionModel \<Rightarrow> params \<Rightarrow> mat \<Rightarrow> int list \<Rightarrow> error + scalar" where
  "compute_loss m params data target =
     (let out = functional_call m params data in criterion out target)"

section \<open>Analytical gradient and Hessian\<close>

text \<open>\<^verbatim>\<open>F.one_hot(target, num_classes=3)\<close> raises a RuntimeError on a negative class value
  and on one that is not smaller than \<^verbatim>\<open>num_classes\<close>; its result is an integer tensor.\<close>

definition one_hot :: "int list \<Rightarrow> nat \<Rightarrow> error + int list list" where
  "one_hot target num_classes =
     (if \<exists>t \<in> set target. t < 0 then Inl RuntimeError
      else if \<exists>t \<in> set target. int num_classes \<le> t then Inl RuntimeError
      else Inr (map (\<lambda>t. map (\<lambda>c. if int c = t then 1 else 0) [0..<num_classes]) target))"

text \<open>
  \<^verbatim>\<open>out = model(data)\<close>
  \<^verbatim>\<open>target_onehot = F.one_hot(target, num_classes=3)\<close>
  \<^verbatim>\<open>g3 = ((out.softmax(dim=1) - target_onehot).T @ data).flatten().unsqueeze(1).data\<close>
\<close>

definition g3 :: "LogisticRegressionModel \<Rightarrow> mat \<Rightarrow> int list \<Rightarrow> error + mat" where
  "g3 m data target =
     (let out = forward m data in
      case one_hot target 3 of
        Inl e \<Rightarrow> Inl e
      | Inr target_onehot \<Rightarrow>
          Inr (unsqueeze1 (flatten
            (matmul (transpose (sub (softmax_dim1 out) (map (map of_int) target_onehot))) data))))"

text \<open>
  \<^verbatim>\<open>prob = model(data)[0].softmax(dim=0)\<close>
  \<^verbatim>\<open>hess2 = torch.zeros(12, 12)\<close>
  \<^verbatim>\<open>for i in range(3):\<close>
  \<^verbatim>\<open>    for j in range(3):\<close>
  \<^verbatim>\<open>        hess2[i*4:(i+1)*4, j*4:(j+1)*4] = prob[i] * (int(i == j) - prob[j]) * (data.T @ data)\<close>
  The batch is not empty, so \<^verbatim>\<open>model(data)[0]\<close> is its first row.
\<close>

definition hess2 :: "LogisticRegressionModel \<Rightarrow> mat \<Rightarrow> mat" where
  "hess2 m data =
     (let prob = softmax (hd (forward m data)) in
      fold (\<lambda>i H.
        fold (\<lambda>j H. set_block H (i * 4) (j * 4)
                (scale (prob ! i * (of_bool (i = j) - prob ! j)) (matmul (transpose data) data)))
          [0..<3] H)
        [0..<3] (zeros 12 12))"

section \<open>Automatic differentiation\<close>

text \<open>
  \<^verbatim>\<open>torch.func.grad\<close> and \<^verbatim>\<open>torch.func.hessian\<close> belong to the library, not to the
  notebook. They are described by what they return: the partial derivatives of the
  differentiated function in the entries of the parameter tensors, and the exception of
  the forward evaluation when that raises. A result is therefore given by a relation
  between the inputs and the outcome, not by an algorithm. Where the function
  differentiated returns a NaN the relation has no outcome: nothing is said about the
  derivative there.
\<close>

text \<open>The tensor \<^term>\<open>W\<close> with entry \<open>(i, k)\<close> replaced by \<^term>\<open>w\<close>.\<close>

definition upd :: "mat \<Rightarrow> nat \<Rightarrow> nat \<Rightarrow> real \<Rightarrow> mat" where
  "upd W i k w = W[i := (W ! i)[k := w]]"

text \<open>\<^term>\<open>d\<close> is the partial derivative of the scalar function \<^term>\<open>F\<close> in entry
  \<open>(i, k)\<close> at \<^term>\<open>W\<close>: along that coordinate \<^term>\<open>F\<close> returns finite values, whose
  derivative at \<open>W[i][k]\<close> is \<^term>\<open>d\<close>.\<close>

definition partial_deriv :: "(mat \<Rightarrow> error + scalar) \<Rightarrow> mat \<Rightarrow> nat \<Rightarrow> nat \<Rightarrow> real \<Rightarrow> bool" where
  "partial_deriv F W i k d \<longleftrightarrow>
     (\<exists>f. (\<forall>w. F (upd W i k w) = Inr (Finite (f w))) \<and> (f has_field_derivative d) (at (W ! i ! k)))"

text \<open>\<^term>\<open>G\<close> is the gradient of \<^term>\<open>F\<close> at \<^term>\<open>W\<close>: a tensor of the shape of
  \<^term>\<open>W\<close> holding the partial derivatives.\<close>

definition is_grad :: "(mat \<Rightarrow> error + scalar) \<Rightarrow> mat \<Rightarrow> mat \<Rightarrow> bool" where
  "is_grad F W G \<longleftrightarrow>
     length G = length W \<and>
     (\<forall>i<length W. length (G ! i) = length (W ! i) \<and>
        (\<forall>k<length (W ! i). partial_deriv F W i k (G ! i ! k)))"

text \<open>A function of a parameter dictionary as a function of its \<open>n\<close>-th tensor alone.\<close>

definition at_param :: "(params \<Rightarrow> error + scalar) \<Rightarrow> params \<Rightarrow> nat \<Rightarrow> mat \<Rightarrow> error + scalar" where
  "at_param L ps n W = L (ps[n := (fst (ps ! n), W)])"

definition is_grad_dict :: "(params \<Rightarrow> error + scalar) \<Rightarrow> params \<Rightarrow> params \<Rightarrow> bool" where
  "is_grad_dict L ps g \<longleftrightarrow>
     map fst g = map fst ps \<and>
     (\<forall>n<length ps. is_grad (at_param L ps n) (snd (ps ! n)) (snd (g ! n)))"

text \<open>
  \<^verbatim>\<open>grad(compute_loss, argnums=1)(model, params, data, target)\<close>, with \<^term>\<open>L\<close> the
  function \<^verbatim>\<open>compute_loss\<close> of its argument 1: the forward evaluation runs first and its
  exception, if any, is the outcome; otherwise the outcome is a dictionary with the keys of
  \<^verbatim>\<open>params\<close> holding the gradients.
\<close>

definition grad :: "(params \<Rightarrow> error + scalar) \<Rightarrow> params \<Rightarrow> error + params \<Rightarrow> bool" where
  "grad L ps r \<longleftrightarrow>
     (case L ps of
        Inl e \<Rightarrow> r = Inl e
      | Inr _ \<Rightarrow> (\<exists>g. r = Inr g \<and> is_grad_dict L ps g))"

text \<open>
  \<^verbatim>\<open>hessian(compute_loss, argnums=1)(model, params, data, target)\<close> returns a dictionary of
  dictionaries; the entry for two parameters of shapes \<open>s\<close> and \<open>s'\<close> is a tensor of shape
  \<open>s + s'\<close> whose entry \<open>(i, k, j, l)\<close> is the derivative in entry \<open>(j, l)\<close> of the second
  parameter of the partial derivative in entry \<open>(i, k)\<close> of the first.
\<close>

type_synonym tensor4 = "real list list list list"

type_synonym hess_dict = "(string \<times> (string \<times> tensor4) list) list"

definition upd_param :: "params \<Rightarrow> nat \<Rightarrow> nat \<Rightarrow> nat \<Rightarrow> real \<Rightarrow> params" where
  "upd_param ps n j l w = ps[n := (fst (ps ! n), upd (snd (ps ! n)) j l w)]"

definition partial_deriv2 ::
  "(params \<Rightarrow> error + scalar) \<Rightarrow> params \<Rightarrow> nat \<Rightarrow> nat \<Rightarrow> nat \<Rightarrow> nat \<Rightarrow> nat \<Rightarrow> nat \<Rightarrow> real \<Rightarrow> bool" where
  "partial_deriv2 L ps n i k n' j l h \<longleftrightarrow>
     (\<exists>g. (\<forall>w. partial_deriv (at_param L (upd_param ps n' j l w) n)
                  (snd (upd_param ps n' j l w ! n)) i k (g w)) \<and>
          (g has_field_derivative h) (at (snd (ps ! n') ! j ! l)))"

definition is_hessian ::
  "(params \<Rightarrow> error + scalar) \<Rightarrow> params \<Rightarrow> nat \<Rightarrow> nat \<Rightarrow> tensor4 \<Rightarrow> bool" where
  "is_hessian L ps n n' T \<longleftrightarrow>
     length T = length (snd (ps ! n)) \<and>
     (\<forall>i<length (snd (ps ! n)). length (T ! i) = length (snd (ps ! n) ! i) \<and>
       (\<forall>k<length (snd (ps ! n) ! i). length (T ! i ! k) = length (snd (ps ! n')) \<and>
         (\<forall>j<length (snd (ps ! n')). length (T ! i ! k ! j) = length (snd (ps ! n') ! j) \<and>
           (\<forall>l<length (snd (ps ! n') ! j). partial_deriv2 L ps n i k n' j l (T ! i ! k ! j ! l)))))"

definition is_hessian_dict :: "(params \<Rightarrow> error + scalar) \<Rightarrow> params \<Rightarrow> hess_dict \<Rightarrow> bool" where
  "is_hessian_dict L ps H \<longleftrightarrow>
     map fst H = map fst ps \<and>
     (\<forall>n<length ps. map fst (snd (H ! n)) = map fst ps \<and>
        (\<forall>n'<length ps. is_hessian L ps n n' (snd (snd (H ! n) ! n'))))"

definition hessian :: "(params \<Rightarrow> error + scalar) \<Rightarrow> params \<Rightarrow> error + hess_dict \<Rightarrow> bool" where
  "hessian L ps r \<longleftrightarrow>
     (case L ps of
        Inl e \<Rightarrow> r = Inl e
      | Inr _ \<Rightarrow> (\<exists>H. r = Inr H \<and> is_hessian_dict L ps H))"

section \<open>The cells in binary64 arithmetic\<close>






















section \<open>Notions used to state the properties\<close>


text \<open>The loop nest of \<^const>\<open>hess2\<close> for an arbitrary family of blocks.\<close>

definition blocks :: "(nat \<Rightarrow> nat \<Rightarrow> mat) \<Rightarrow> mat" where
  "blocks B =
     fold (\<lambda>i H. fold (\<lambda>j H. set_block H (i * 4) (j * 4) (B i j)) [0..<3] H) [0..<3] (zeros 12 12)"

section \<open>Shapes and explicit forms\<close>

lemma length4E: "length r = 4 \<Longrightarrow> \<exists>a b c d. r = [a, b, c, d]"
  by (auto simp: length_Suc_conv eval_nat_numeral)

lemma length3E: "length r = 3 \<Longrightarrow> \<exists>a b c. r = [a, b, c]"
  by (auto simp: length_Suc_conv eval_nat_numeral)


lemma shape_3_4E:
  assumes "shape 3 4 W"
  obtains w00 w01 w02 w03 w10 w11 w12 w13 w20 w21 w22 w23 where
    "W = [[w00, w01, w02, w03], [w10, w11, w12, w13], [w20, w21, w22, w23]]"
proof -
  from assms obtain r0 r1 r2 where W: "W = [r0, r1, r2]"
    using length3E unfolding shape_def by blast
  with assms have "length r0 = 4" "length r1 = 4" "length r2 = 4"
    by (simp_all add: shape_def)
  then show thesis using that W by (metis length4E)
qed

lemma shape_1_4E:
  assumes "shape 1 4 data"
  obtains x0 x1 x2 x3 where "data = [[x0, x1, x2, x3]]"
  using assms unfolding shape_def
  by (cases data) (auto dest: length4E)

lemma lt3: "n < 3 \<Longrightarrow> n = 0 \<or> n = 1 \<or> n = (2::nat)"
  by linarith

lemma lt4: "n < 4 \<Longrightarrow> n = 0 \<or> n = 1 \<or> n = 2 \<or> n = (3::nat)"
  by linarith

lemma upt3: "[0..<3] = [0, 1, 2]"
  by (simp add: upt_rec)


lemma shape_length: "shape n m H \<Longrightarrow> length H = n"
  by (simp add: shape_def)

lemma shape_nth: "shape n m H \<Longrightarrow> a < n \<Longrightarrow> length (H ! a) = m"
  by (simp add: shape_def list_all_length)

lemma shape_eq_map:
  "shape n m A \<Longrightarrow> A = map (\<lambda>a. map (\<lambda>b. A ! a ! b) [0..<m]) [0..<n]"
  by (auto simp: shape_def list_all_length intro!: nth_equalityI)

lemma shape_zeros: "shape n m (zeros n m)"
  by (simp add: shape_def zeros_def list_all_length)

lemma shape_forward:
  assumes "shape 3 4 (weight m)" "shape 1 4 data"
  shows "shape 1 3 (forward m data)"
proof -
  from assms(1) obtain w00 w01 w02 w03 w10 w11 w12 w13 w20 w21 w22 w23 where
    W: "weight m = [[w00, w01, w02, w03], [w10, w11, w12, w13], [w20, w21, w22, w23]]"
    by (rule shape_3_4E)
  from assms(2) obtain x0 x1 x2 x3 where x: "data = [[x0, x1, x2, x3]]"
    by (rule shape_1_4E)
  show ?thesis
    by (simp add: W x forward_def F_linear_def matmul_def shape_def)
qed

lemma hd_forward_length:
  assumes "shape 3 4 (weight m)" "shape 1 4 data"
  shows "length (hd (forward m data)) = 3" "forward m data = [hd (forward m data)]"
  using shape_forward[OF assms] by (cases "forward m data"; simp add: shape_def)+

lemma shape_outer:
  assumes "shape 1 4 data"
  shows "shape 4 4 (matmul (transpose data) data)"
proof -
  from assms(1) obtain x0 x1 x2 x3 where x: "data = [[x0, x1, x2, x3]]"
    by (rule shape_1_4E)
  show ?thesis by (simp add: x matmul_def shape_def)
qed

lemma outer_nth:
  assumes "shape 1 4 data" "k < 4" "l < 4"
  shows "matmul (transpose data) data ! k ! l = hd data ! k * hd data ! l"
proof -
  from assms(1) obtain x0 x1 x2 x3 where x: "data = [[x0, x1, x2, x3]]"
    by (rule shape_1_4E)
  from lt4[OF assms(2)] lt4[OF assms(3)] show ?thesis
    by (elim disjE) (simp_all add: x matmul_def dot_def)
qed

lemma scale_nth: "k < length A \<Longrightarrow> l < length (A ! k) \<Longrightarrow> scale c A ! k ! l = c * A ! k ! l"
  by (simp add: scale_def)

subsection \<open>Softmax\<close>








subsection \<open>Block assignment\<close>

lemma length_set_block: "length (set_block H r c B) = length H"
  by (simp add: set_block_def)

lemma length_set_block_nth:
  "a < length H \<Longrightarrow> length (set_block H r c B ! a) = length (H ! a)"
  by (simp add: set_block_def nth_enumerate_eq)

lemma set_block_nth:
  "a < length H \<Longrightarrow> b < length (H ! a) \<Longrightarrow>
   set_block H r c B ! a ! b =
     (if r \<le> a \<and> a < r + 4 \<and> c \<le> b \<and> b < c + 4 then B ! (a - r) ! (b - c) else H ! a ! b)"
  by (simp add: set_block_def nth_enumerate_eq)

lemma shape_set_block: "shape n m H \<Longrightarrow> shape n m (set_block H r c B)"
  by (auto simp: shape_def list_all_length length_set_block length_set_block_nth)

lemma shape_blocks: "shape 12 12 (blocks B)"
  by (simp add: blocks_def upt3 shape_set_block shape_zeros)

lemma blocks_nth:
  assumes "i < 3" "j < 3" "k < 4" "l < 4"
  shows "blocks B ! (4 * i + k) ! (4 * j + l) = B i j ! k ! l"
proof -
  have sb: "shape 12 12 H \<Longrightarrow> a < 12 \<Longrightarrow> b < 12 \<Longrightarrow> set_block H r c C ! a ! b =
     (if r \<le> a \<and> a < r + 4 \<and> c \<le> b \<and> b < c + 4 then C ! (a - r) ! (b - c) else H ! a ! b)"
    for H a b r c C
    by (rule set_block_nth) (simp_all add: shape_length shape_nth)
  from lt3[OF assms(1)] lt3[OF assms(2)] show ?thesis
    using assms(3,4)
    by (elim disjE) (simp_all add: blocks_def upt3 sb shape_set_block shape_zeros)
qed

subsection \<open>Entries of the analytical Hessian\<close>

lemma hess2_blocks:
  "hess2 m data = blocks (\<lambda>i j. scale (softmax (hd (forward m data)) ! i *
       (of_bool (i = j) - softmax (hd (forward m data)) ! j)) (matmul (transpose data) data))"
  by (simp add: hess2_def blocks_def Let_def)

lemma shape_hess2: "shape 12 12 (hess2 m data)"
  by (simp add: hess2_blocks shape_blocks)

lemma hess2_nth:
  assumes "shape 1 4 data" "i < 3" "j < 3" "k < 4" "l < 4"
  shows "hess2 m data ! (4 * i + k) ! (4 * j + l) =
         softmax (hd (forward m data)) ! i * (of_bool (i = j) - softmax (hd (forward m data)) ! j)
           * (hd data ! k * hd data ! l)"
  using assms shape_outer[OF assms(1)]
  by (simp add: hess2_blocks blocks_nth scale_nth outer_nth shape_def list_all_length)

lemma hess2_entry:
  assumes "shape 1 4 data" "a < 12" "b < 12"
  shows "hess2 m data ! a ! b =
         softmax (hd (forward m data)) ! (a div 4) *
           (of_bool (a div 4 = b div 4) - softmax (hd (forward m data)) ! (b div 4))
           * (hd data ! (a mod 4) * hd data ! (b mod 4))"
proof -
  have "a div 4 < 3" "b div 4 < 3" "a mod 4 < 4" "b mod 4 < 4"
    using assms(2,3) by simp_all
  from hess2_nth[OF assms(1) this, of m] show ?thesis
    by simp
qed




subsection \<open>Entries of the analytical gradient\<close>


section \<open>Derivatives of the loss\<close>















lemma compute_loss_cases:
  assumes "shape 3 4 (weight m)" "shape 1 4 data"
  shows "compute_loss m (named_parameters m) data [y] =
     (if y = ignore_index then Inr NaN
      else if y < 0 \<or> 3 \<le> y then Inl IndexError
      else Inr (Finite (- (log_softmax (hd (forward m data)) ! nat y))))"
proof -
  from hd_forward_length[OF assms]
  have len: "length (hd (forward m data)) = 3" and fw: "forward m data = [hd (forward m data)]"
    by simp_all
  have "criterion [hd (forward m data)] [y] =
     (if y = ignore_index then Inr NaN
      else if y < 0 \<or> 3 \<le> y then Inl IndexError
      else Inr (Finite (- (log_softmax (hd (forward m data)) ! nat y))))"
    using len by (simp add: criterion_def)
  with fw show ?thesis
    by (simp add: compute_loss_def functional_call_def named_parameters_def forward_def)
qed


section \<open>Rounding to binary64\<close>








































































section \<open>Properties of the analytical Hessian\<close>

text \<open>
  C4. For every 3 x 4 weight and every sample of four features, the analytical Hessian
  \<^const>\<open>hess2\<close> is symmetric: it is a 12 x 12 matrix, equal entry by entry to its mirror
  image and equal to its transpose.
\<close>

theorem hess2_symmetric:
  assumes "shape 3 4 (weight m)" "shape 1 4 data"
  shows "shape 12 12 (hess2 m data) \<and>
         (\<forall>a<12. \<forall>b<12. hess2 m data ! a ! b = hess2 m data ! b ! a) \<and>
         transpose (hess2 m data) = hess2 m data"
proof -
  let ?H = "hess2 m data"
  have sh: "shape 12 12 ?H" by (rule shape_hess2)
  have sym: "?H ! a ! b = ?H ! b ! a" if "a < 12" "b < 12" for a b
    using that by (simp add: hess2_entry[OF assms(2)] algebra_simps)
  from sh have "transpose ?H = map (\<lambda>i. map (\<lambda>j. ?H ! j ! i) [0..<length ?H]) [0..<12]"
    by (intro transpose_rectangle) (auto simp: shape_def list_all_length)
  also have "\<dots> = map (\<lambda>i. map (\<lambda>j. ?H ! i ! j) [0..<12]) [0..<12]"
    using sh by (auto simp: shape_def sym)
  also have "\<dots> = ?H"
    using shape_eq_map[OF sh] by simp
  finally show ?thesis using sh sym by blast
qed

theorem hess2_symmetric_witness:
  "shape 3 4 (zeros 3 4) \<and> shape 1 4 [[1, 2, 3, 4 :: real]] \<and>
   transpose (hess2 \<lparr>weight = zeros 3 4, weight_grad = None\<rparr> [[1, 2, 3, 4]])
     = hess2 \<lparr>weight = zeros 3 4, weight_grad = None\<rparr> [[1, 2, 3, 4]]"
proof -
  have h1: "shape 3 4 (weight \<lparr>weight = zeros 3 4, weight_grad = None\<rparr>)"
    by (simp add: shape_zeros)
  have h2: "shape 1 4 [[1, 2, 3, 4 :: real]]"
    by (simp add: shape_def)
  show ?thesis
    using h1 h2 hess2_symmetric[OF h1 h2] by simp
qed







section \<open>Properties of the analytical gradient\<close>

text \<open>
  C6. With the 3 x 4 zero matrix as weight, the sample \<open>x = [1, 2, 3, 4]\<close> and the label
  \<open>y = 0\<close>, the softmax probabilities are \<open>[1/3, 1/3, 1/3]\<close>; the class-0 block of the
  analytical gradient is \<open>(1/3 - 1) x\<close>, the class-1 and class-2 blocks are \<open>(1/3) x\<close>, and
  these are within \<open>10\<^sup>-\<^sup>3\<close> of \<open>[-0.667, -1.333, -2.0, -2.667]\<close> and
  \<open>[0.333, 0.667, 1.0, 1.333]\<close>.
\<close>

theorem g3_zero_weight_scenario:
  "softmax_dim1 (forward (m\<lparr>weight := zeros 3 4\<rparr>) [[1, 2, 3, 4 :: real]]) = [[1 / 3, 1 / 3, 1 / 3]] \<and>
   g3 (m\<lparr>weight := zeros 3 4\<rparr>) [[1, 2, 3, 4 :: real]] [0] =
     Inr (unsqueeze1 (map ((*) (1 / 3 - 1)) [1, 2, 3, 4 :: real] @ map ((*) (1 / 3)) [1, 2, 3, 4 :: real]
            @ map ((*) (1 / 3)) [1, 2, 3, 4 :: real])) \<and>
   list_all2 (\<lambda>a b. \<bar>a - b\<bar> \<le> 1 / 10 ^ 3)
     (map ((*) (1 / 3 - 1)) [1, 2, 3, 4 :: real] @ map ((*) (1 / 3)) [1, 2, 3, 4 :: real]
        @ map ((*) (1 / 3)) [1, 2, 3, 4 :: real])
     [- 0.667 :: real, - 1.333, - 2.0, - 2.667, 0.333, 0.667, 1.0, 1.333, 0.333, 0.667, 1.0, 1.333]"
  by (simp add: g3_def forward_def F_linear_def matmul_def dot_def zeros_def eval_nat_numeral
      one_hot_def softmax_dim1_def softmax_def sub_def flatten_def unsqueeze1_def)




section \<open>The analytical formulas as derivatives of the loss\<close>







section \<open>Errors\<close>

text \<open>
  C7, as amended. For every 3 x 4 weight and every sample of four features, the loss
  evaluation fails if and only if the label lies outside \<open>{0, 1, 2}\<close> and is not \<open>-100\<close>,
  the default \<^verbatim>\<open>ignore_index\<close> of \<^verbatim>\<open>CrossEntropyLoss\<close>. When it fails, the error is an
  IndexError, and it is the only outcome of the gradient and of the Hessian routine: no
  derivative is produced. With the label \<open>-100\<close> the sample is skipped, nothing is raised
  and the loss is the NaN of a mean over no sample.
\<close>

theorem compute_loss_fails_iff_label_invalid_and_not_ignored:
  assumes "shape 3 4 (weight m)" "shape 1 4 data"
  shows "((\<exists>e. compute_loss m (named_parameters m) data [y] = Inl e) \<longleftrightarrow>
            y \<notin> {0, 1, 2} \<and> y \<noteq> ignore_index) \<and>
         (y \<notin> {0, 1, 2} \<and> y \<noteq> ignore_index \<longrightarrow>
            compute_loss m (named_parameters m) data [y] = Inl IndexError \<and>
            (\<forall>r. grad (\<lambda>ps. compute_loss m ps data [y]) (named_parameters m) r \<longrightarrow> r = Inl IndexError) \<and>
            (\<forall>r. hessian (\<lambda>ps. compute_loss m ps data [y]) (named_parameters m) r \<longrightarrow> r = Inl IndexError)) \<and>
         (y = ignore_index \<longrightarrow> compute_loss m (named_parameters m) data [y] = Inr NaN)"
proof -
  have "y \<notin> {0, 1, 2} \<longleftrightarrow> y < 0 \<or> 3 \<le> y" by auto
  then show ?thesis
    by (auto simp: grad_def hessian_def compute_loss_cases[OF assms] ignore_index_def)
qed

theorem compute_loss_fails_iff_label_invalid_and_not_ignored_witness:
  "shape 3 4 (weight \<lparr>weight = zeros 3 4, weight_grad = None\<rparr>) \<and> shape 1 4 [[1, 2, 3, 4 :: real]] \<and>
   (5 :: int) \<notin> {0, 1, 2} \<and> (5 :: int) \<noteq> ignore_index \<and>
   compute_loss \<lparr>weight = zeros 3 4, weight_grad = None\<rparr>
     (named_parameters \<lparr>weight = zeros 3 4, weight_grad = None\<rparr>) [[1, 2, 3, 4]] [5] = Inl IndexError \<and>
   grad (\<lambda>ps. compute_loss \<lparr>weight = zeros 3 4, weight_grad = None\<rparr> ps [[1, 2, 3, 4]] [5])
     (named_parameters \<lparr>weight = zeros 3 4, weight_grad = None\<rparr>) (Inl IndexError) \<and>
   \<not> (\<exists>r. grad (\<lambda>ps. compute_loss \<lparr>weight = zeros 3 4, weight_grad = None\<rparr> ps [[1, 2, 3, 4]] [5])
          (named_parameters \<lparr>weight = zeros 3 4, weight_grad = None\<rparr>) r \<and> r \<noteq> Inl IndexError) \<and>
   hessian (\<lambda>ps. compute_loss \<lparr>weight = zeros 3 4, weight_grad = None\<rparr> ps [[1, 2, 3, 4]] [5])
     (named_parameters \<lparr>weight = zeros 3 4, weight_grad = None\<rparr>) (Inl IndexError) \<and>
   \<not> (\<exists>r. hessian (\<lambda>ps. compute_loss \<lparr>weight = zeros 3 4, weight_grad = None\<rparr> ps [[1, 2, 3, 4]] [5])
          (named_parameters \<lparr>weight = zeros 3 4, weight_grad = None\<rparr>) r \<and> r \<noteq> Inl IndexError)"
proof -
  let ?m = "\<lparr>weight = zeros 3 4, weight_grad = None\<rparr>"
  have h1: "shape 3 4 (weight ?m)"
    by (simp add: shape_zeros)
  have h2: "shape 1 4 [[1, 2, 3, 4 :: real]]"
    by (simp add: shape_def)
  have h3: "(5 :: int) \<notin> {0, 1, 2} \<and> (5 :: int) \<noteq> ignore_index"
    by (simp add: ignore_index_def)
  note t = compute_loss_fails_iff_label_invalid_and_not_ignored[OF h1 h2, of 5]
  from t h3 have c: "compute_loss ?m (named_parameters ?m) [[1, 2, 3, 4]] [5] = Inl IndexError"
    by blast
  then have g: "grad (\<lambda>ps. compute_loss ?m ps [[1, 2, 3, 4]] [5]) (named_parameters ?m) (Inl IndexError)"
    and h: "hessian (\<lambda>ps. compute_loss ?m ps [[1, 2, 3, 4]] [5]) (named_parameters ?m) (Inl IndexError)"
    by (simp_all add: grad_def hessian_def)
  from t h3 have
    "\<not> (\<exists>r. grad (\<lambda>ps. compute_loss ?m ps [[1, 2, 3, 4]] [5]) (named_parameters ?m) r \<and> r \<noteq> Inl IndexError)"
    "\<not> (\<exists>r. hessian (\<lambda>ps. compute_loss ?m ps [[1, 2, 3, 4]] [5]) (named_parameters ?m) r \<and> r \<noteq> Inl IndexError)"
    by blast+
  with h1 h2 h3 c g h show ?thesis by blast
qed

text \<open>
  The claim as stated fails at the label \<open>-100\<close>: it lies outside \<open>{0, 1, 2}\<close>, and the loss
  evaluation returns a NaN instead of failing.
\<close>

theorem compute_loss_ignore_index_counterexample:
  "(- 100 :: int) \<notin> {0, 1, 2} \<and>
   compute_loss \<lparr>weight = zeros 3 4, weight_grad = None\<rparr>
     (named_parameters \<lparr>weight = zeros 3 4, weight_grad = None\<rparr>) [[1, 2, 3, 4]] [- 100] = Inr NaN"
  by (simp add: compute_loss_def functional_call_def named_parameters_def forward_def F_linear_def
      matmul_def dot_def zeros_def eval_nat_numeral criterion_def ignore_index_def)

end
